theory Spec2Isabelle
  imports Complex_Main
begin

section \<open>JavaScript values used by the run lifecycle code\<close>

text \<open>
  A JavaScript string is a \<^typ>\<open>string\<close> that holds the bytes of its UTF-8 encoding, one
  \<^typ>\<open>char\<close> for each byte; a value of type \<open>string | null\<close> (or an optional field
  \<open>run_id?: string\<close>) is a \<^typ>\<open>string option\<close>. Such a value is truthy when it is
  present and not the empty string; \<open>a || b\<close> yields \<open>a\<close> when \<open>a\<close> is truthy and \<open>b\<close>
  otherwise.
\<close>

definition truthy :: "string option \<Rightarrow> bool" where
  "truthy v = (case v of None \<Rightarrow> False | Some s \<Rightarrow> s \<noteq> [])"

definition js_or :: "string option \<Rightarrow> string option \<Rightarrow> string option" where
  "js_or a b = (if truthy a then a else b)"

text \<open>The decimal text of a non-negative integer, as a template literal renders it.\<close>

definition digit_char :: "nat \<Rightarrow> char" where
  "digit_char d = ''0123456789'' ! d"

fun string_of_nat :: "nat \<Rightarrow> string" where
  "string_of_nat n =
     (if n < 10 then [digit_char n]
      else string_of_nat (n div 10) @ [digit_char (n mod 10)])"

declare string_of_nat.simps [simp del]

text \<open>
  \<open>s.split("\n")\<close>: the pieces of \<open>s\<close> between line feeds. The result is never empty:
  the empty string splits into one empty piece, and a text ending in a line feed has an
  empty last piece.
\<close>

fun split_nl :: "string \<Rightarrow> string list" where
  "split_nl [] = [[]]"
| "split_nl (c # cs) =
     (if c = CHR 0x0A then [] # split_nl cs
      else (case split_nl cs of [] \<Rightarrow> [[c]] | l # ls \<Rightarrow> (c # l) # ls))"

text \<open>
  \<open>!line.trim()\<close>: the line holds white space only. \<open>trim\<close> removes the white space
  and the line terminators of ECMAScript: TAB, LF, VT, FF, CR, SPACE, U+00A0, U+1680,
  U+2000 to U+200A, U+2028, U+2029, U+202F, U+205F, U+3000 and U+FEFF. \<open>space_width\<close> is
  the number of bytes of the white space character a text starts with, and \<open>0\<close> when it
  starts with none.
\<close>

definition js_space :: "char \<Rightarrow> bool" where
  "js_space c = (c \<in> set [CHR 0x09, CHR 0x0A, CHR 0x0B, CHR 0x0C, CHR 0x0D, CHR 0x20])"

definition wide_spaces :: "string list" where
  "wide_spaces =
     [[CHR 0xC2, CHR 0xA0], [CHR 0xE1, CHR 0x9A, CHR 0x80],
      [CHR 0xE2, CHR 0x80, CHR 0x80], [CHR 0xE2, CHR 0x80, CHR 0x81],
      [CHR 0xE2, CHR 0x80, CHR 0x82], [CHR 0xE2, CHR 0x80, CHR 0x83],
      [CHR 0xE2, CHR 0x80, CHR 0x84], [CHR 0xE2, CHR 0x80, CHR 0x85],
      [CHR 0xE2, CHR 0x80, CHR 0x86], [CHR 0xE2, CHR 0x80, CHR 0x87],
      [CHR 0xE2, CHR 0x80, CHR 0x88], [CHR 0xE2, CHR 0x80, CHR 0x89],
      [CHR 0xE2, CHR 0x80, CHR 0x8A], [CHR 0xE2, CHR 0x80, CHR 0xA8],
      [CHR 0xE2, CHR 0x80, CHR 0xA9], [CHR 0xE2, CHR 0x80, CHR 0xAF],
      [CHR 0xE2, CHR 0x81, CHR 0x9F], [CHR 0xE3, CHR 0x80, CHR 0x80],
      [CHR 0xEF, CHR 0xBB, CHR 0xBF]]"

definition space_width :: "string \<Rightarrow> nat" where
  "space_width t =
     (case t of
        [] \<Rightarrow> 0
      | c # cs \<Rightarrow>
          (if js_space c then 1
           else if take 2 t \<in> set wide_spaces then 2
           else if take 3 t \<in> set wide_spaces then 3
           else 0))"

function blank :: "string \<Rightarrow> bool" where
  "blank line =
     (if line = [] then True
      else if space_width line = 0 then False
      else blank (drop (space_width line) line))"
  by pat_completeness auto
termination
  by (relation "measure length") auto

declare blank.simps [simp del]

section \<open>FLVisualizer: the stream decoder and the run identifier\<close>

type_synonym number = real

text \<open>
  The interface \<open>BackendRoundData\<close>. An object with string keys is the list of its
  entries in the order \<open>Object.keys\<close> enumerates them.
\<close>

record BackendRoundData =
  round_n :: number
  global_loss :: number
  client_train :: "(string \<times> number) list"
  client_val :: "(string \<times> number) list"
  run_id :: "string option"

text \<open>The interface \<open>RoundData\<close>: two named fields and the indexed \<open>[key: string]: number\<close>.\<close>

record RoundData =
  rd_round :: number
  rd_global_loss :: number
  rd_keys :: "(string \<times> number) list"

text \<open>\<open>obj[k] = v\<close>: an existing key keeps its place, a new key goes last.\<close>

fun obj_set :: "(string \<times> number) list \<Rightarrow> string \<Rightarrow> number \<Rightarrow> (string \<times> number) list" where
  "obj_set [] k v = [(k, v)]"
| "obj_set (p # ps) k v = (if fst p = k then (k, v) # ps else p # obj_set ps k v)"

text \<open>\<open>obj[k] || 0\<close>: a missing or zero entry reads as \<open>0\<close>.\<close>

definition or0 :: "number option \<Rightarrow> number" where
  "or0 v = (case v of None \<Rightarrow> 0 | Some x \<Rightarrow> (if x = 0 then 0 else x))"

definition formattedData :: "BackendRoundData \<Rightarrow> RoundData" where
  "formattedData d =
     (let f1 = fold (\<lambda>(index, clientKey) f.
                  obj_set f (''client_train_'' @ string_of_nat (index + 1))
                    (or0 (map_of (client_train d) clientKey)))
                (enumerate 0 (map fst (client_train d))) [];
          f2 = fold (\<lambda>(index, clientKey) f.
                  obj_set f (''client_'' @ string_of_nat (index + 1))
                    (or0 (map_of (client_val d) clientKey)))
                (enumerate 0 (map fst (client_val d))) f1
      in \<lparr>rd_round = round_n d, rd_global_loss = global_loss d, rd_keys = f2\<rparr>)"

text \<open>
  The variables of the read loop of \<open>handleStartTraining\<close>: the residual \<open>buffer\<close>, the
  local \<open>streamRunId\<close>, the component state \<open>globalLosses\<close>, and the lines reported by
  \<open>console.error\<close> in the \<open>catch\<close> of the loop body.
\<close>

record reader_state =
  buffer :: string
  streamRunId :: "string option"
  globalLosses :: "RoundData list"
  console_errors :: "string list"

text \<open>
  The body of \<open>for (const line of lines)\<close>. \<open>JSON.parse\<close> is the platform's: it is the
  parameter \<open>parse\<close>, which gives the parsed \<open>BackendRoundData\<close> or \<open>None\<close> where
  \<open>JSON.parse\<close> throws. The parsed value has the type the code declares for it, and on
  a value of that type nothing else in the \<open>try\<close> block throws.
\<close>

definition process_line ::
  "(string \<Rightarrow> BackendRoundData option) \<Rightarrow> string \<Rightarrow> reader_state \<Rightarrow> reader_state" where
  "process_line parse line s =
     (if blank line then s
      else (case parse line of
              None \<Rightarrow> s\<lparr>console_errors := console_errors s @ [line]\<rparr>
            | Some d \<Rightarrow>
                (let s1 = (if truthy (run_id d) \<and> \<not> truthy (streamRunId s)
                           then s\<lparr>streamRunId := run_id d\<rparr> else s)
                 in s1\<lparr>globalLosses := globalLosses s1 @ [formattedData d]\<rparr>)))"

text \<open>
  One turn of the \<open>while (true)\<close> loop for a chunk that is not the end of the stream.
  \<open>decoder.decode\<close> is the platform's and is the parameter \<open>decode\<close>; the decoder the
  code builds is \<open>TextDecoder_decode\<close> below.
  \<open>lines.pop() || ""\<close> is the last piece, and the empty string for no piece.
\<close>

definition read_chunk ::
  "('chunk \<Rightarrow> string) \<Rightarrow> (string \<Rightarrow> BackendRoundData option) \<Rightarrow> 'chunk \<Rightarrow>
     reader_state \<Rightarrow> reader_state" where
  "read_chunk decode parse val s =
     (let lines = split_nl (buffer s @ decode val);
          popped = (if lines = [] then [] else last lines)
      in fold (process_line parse) (butlast lines) (s\<lparr>buffer := popped\<rparr>))"

definition read_all ::
  "('chunk \<Rightarrow> string) \<Rightarrow> (string \<Rightarrow> BackendRoundData option) \<Rightarrow> 'chunk list \<Rightarrow>
     reader_state \<Rightarrow> reader_state" where
  "read_all decode parse chunks s = fold (read_chunk decode parse) chunks s"

subsection \<open>The decoder of the platform\<close>

text \<open>
  \<open>new TextDecoder()\<close> decodes UTF-8, replaces what is not well formed by U+FFFD and
  removes a byte order mark at the start. The loop calls \<open>decoder.decode(value)\<close>
  without \<open>{stream: true}\<close>, so every call decodes its chunk from a fresh state and
  flushes at the end of the chunk: bytes of an unfinished character at the end of a chunk
  are not kept for the next call. A chunk is the list of its bytes.

  \<open>utf8_decoder\<close> is the decoder of the Encoding Standard: \<open>needed\<close> is the number of
  continuation bytes still expected, \<open>lower\<close> and \<open>upper\<close> bound the next one, and \<open>seen\<close>
  holds the bytes of the character read so far. A character that is complete is written
  with the bytes it came with; a byte that cannot start or continue a character is
  answered by U+FFFD, and a byte that does not continue the character is read again as a
  first byte; the end of the input inside a character gives U+FFFD.
\<close>

definition byte :: "char \<Rightarrow> nat" where
  "byte c = of_char c"

definition replacement :: string where
  "replacement = [CHR 0xEF, CHR 0xBF, CHR 0xBD]"

function utf8_decoder :: "nat \<Rightarrow> nat \<Rightarrow> nat \<Rightarrow> string \<Rightarrow> string \<Rightarrow> string" where
  "utf8_decoder needed lower upper seen [] = (if needed = 0 then [] else replacement)"
| "utf8_decoder needed lower upper seen (b # bs) =
     (if needed = 0 then
        (if byte b \<le> 0x7F then b # utf8_decoder 0 0x80 0xBF [] bs
         else if 0xC2 \<le> byte b \<and> byte b \<le> 0xDF then utf8_decoder 1 0x80 0xBF [b] bs
         else if 0xE0 \<le> byte b \<and> byte b \<le> 0xEF then
           utf8_decoder 2 (if byte b = 0xE0 then 0xA0 else 0x80)
             (if byte b = 0xED then 0x9F else 0xBF) [b] bs
         else if 0xF0 \<le> byte b \<and> byte b \<le> 0xF4 then
           utf8_decoder 3 (if byte b = 0xF0 then 0x90 else 0x80)
             (if byte b = 0xF4 then 0x8F else 0xBF) [b] bs
         else replacement @ utf8_decoder 0 0x80 0xBF [] bs)
      else if byte b < lower \<or> upper < byte b then
        replacement @ utf8_decoder 0 0x80 0xBF [] (b # bs)
      else if needed = 1 then seen @ [b] @ utf8_decoder 0 0x80 0xBF [] bs
      else utf8_decoder (needed - 1) 0x80 0xBF (seen @ [b]) bs)"
  by pat_completeness auto
termination
  by (relation "measure (\<lambda>(needed, lower, upper, seen, bs).
        2 * length bs + (if needed = 0 then 0 else 1))") auto

definition TextDecoder_decode :: "string \<Rightarrow> string" where
  "TextDecoder_decode bytes =
     utf8_decoder 0 0x80 0xBF []
       (if take 3 bytes = [CHR 0xEF, CHR 0xBB, CHR 0xBF] then drop 3 bytes else bytes)"

text \<open>
  The response of a successful \<open>/train\<close> call: what \<open>response.headers.get\<close> returns for
  the run id header (the lookup ignores case, so both spellings read the same entry), and
  the chunks the body's reader delivers before \<open>done\<close>; \<open>None\<close> is a response without
  a body.
\<close>

record 'chunk response =
  x_run_id :: "string option"
  body :: "'chunk list option"

text \<open>The component state of FLVisualizer and the calls it makes to \<open>onComplete\<close>.\<close>

record fl_state =
  fl_globalLosses :: "RoundData list"
  fl_error :: "string option"
  capturedRunId :: "string option"
  onComplete_calls :: "string list"
  fl_console_errors :: "string list"

definition fallbackRunId :: "nat \<Rightarrow> string" where
  "fallbackRunId now = ''fallback-'' @ string_of_nat now"

definition runIdFromHeader :: "'chunk response \<Rightarrow> string option" where
  "runIdFromHeader resp = js_or (js_or (x_run_id resp) (x_run_id resp)) None"

definition finalRunId :: "string option \<Rightarrow> string option \<Rightarrow> nat \<Rightarrow> string" where
  "finalRunId hdr stream now =
     (case js_or (js_or hdr stream) (Some (fallbackRunId now)) of
        None \<Rightarrow> [] | Some r \<Rightarrow> r)"

definition reader_init :: reader_state where
  "reader_init = \<lparr>buffer = [], streamRunId = None, globalLosses = [], console_errors = []\<rparr>"

text \<open>
  \<open>handleStartTraining\<close> from the point where the response is known to be \<open>ok\<close>.
  \<open>has_onComplete\<close> tells whether the \<open>onComplete\<close> prop was given; \<open>now\<close> is what
  \<open>Date.now()\<close> returns where the fallback identifier is built, which is in the \<open>done\<close>
  branch of the loop (or in the branch for a missing body).
\<close>

definition handleStartTraining ::
  "('chunk \<Rightarrow> string) \<Rightarrow> (string \<Rightarrow> BackendRoundData option) \<Rightarrow> bool \<Rightarrow>
     'chunk response \<Rightarrow> nat \<Rightarrow> fl_state" where
  "handleStartTraining decode parse has_onComplete resp now =
     (case body resp of
        Some chunks \<Rightarrow>
          (let s = read_all decode parse chunks reader_init;
               fin = finalRunId (runIdFromHeader resp) (streamRunId s) now
           in \<lparr>fl_globalLosses = globalLosses s,
               fl_error = (if has_onComplete then None
                           else Some ''Training completed but no callback to proceed''),
               capturedRunId = Some fin,
               onComplete_calls = (if has_onComplete then [fin] else []),
               fl_console_errors = console_errors s\<rparr>)
      | None \<Rightarrow>
          \<lparr>fl_globalLosses = [],
           fl_error = Some ''No response body received from training endpoint'',
           capturedRunId = Some (fallbackRunId now),
           onComplete_calls = (if has_onComplete then [fallbackRunId now] else []),
           fl_console_errors = []\<rparr>)"

text \<open>
  A training session as the clock sees it: \<open>started_at\<close> is the time at which
  \<open>handleStartTraining\<close> is called, \<open>completed_at\<close> the time at which the reader reports
  \<open>done\<close> (or the missing body is found). The code calls \<open>Date.now()\<close> only where it
  builds the fallback identifier, so the call returns \<open>completed_at\<close>.
\<close>

record 'chunk session =
  started_at :: nat
  completed_at :: nat
  train_response :: "'chunk response"

definition run_session ::
  "('chunk \<Rightarrow> string) \<Rightarrow> (string \<Rightarrow> BackendRoundData option) \<Rightarrow> 'chunk session \<Rightarrow> fl_state" where
  "run_session decode parse ses =
     handleStartTraining decode parse True (train_response ses) (completed_at ses)"

subsection \<open>What a text decodes to\<close>

text \<open>
  The lines of a text that are closed by a line feed, the rest after the last line feed,
  the records of the closed lines that are not blank and parse, and the identifier of the
  first record that carries a non-empty one.
\<close>

definition complete_lines :: "string \<Rightarrow> string list" where
  "complete_lines t = butlast (split_nl t)"

definition residual :: "string \<Rightarrow> string" where
  "residual t = last (split_nl t)"

definition decoded_records :: "(string \<Rightarrow> BackendRoundData option) \<Rightarrow> string \<Rightarrow> BackendRoundData list" where
  "decoded_records parse t = List.map_filter parse (filter (\<lambda>l. \<not> blank l) (complete_lines t))"

definition first_embedded :: "(string \<Rightarrow> BackendRoundData option) \<Rightarrow> string \<Rightarrow> string option" where
  "first_embedded parse t =
     (case find (\<lambda>d. truthy (run_id d)) (decoded_records parse t) of
        None \<Rightarrow> None | Some d \<Rightarrow> run_id d)"

text \<open>
  The resolution rule in the words of the specification: the header identifier if there
  is one, else the identifier of the first record that carries one, else a fixed prefix
  followed by the session start timestamp.
\<close>

definition spec_resolved_runId ::
  "('chunk \<Rightarrow> string) \<Rightarrow> (string \<Rightarrow> BackendRoundData option) \<Rightarrow> 'chunk session \<Rightarrow> string" where
  "spec_resolved_runId decode parse ses =
     (case x_run_id (train_response ses) of
        Some h \<Rightarrow> h
      | None \<Rightarrow>
          (case first_embedded parse
                  (concat (map decode (case body (train_response ses) of None \<Rightarrow> [] | Some cs \<Rightarrow> cs))) of
             Some e \<Rightarrow> e
           | None \<Rightarrow> ''fallback-'' @ string_of_nat (started_at ses)))"

section \<open>HomePage: readiness polling and cleanup\<close>

type_synonym timer = nat

text \<open>
  The outcome of one \<open>fetch\<close> of \<open>/dissect/status\<close>: an \<open>ok\<close> response whose \<open>ready\<close>
  is truthy, an \<open>ok\<close> response whose \<open>ready\<close> is not, a response that is not \<open>ok\<close>,
  and a \<open>fetch\<close> (or \<open>res.json()\<close>) that throws.
\<close>

datatype status_response = Ready | NotReady | HttpFailure | NetworkError

text \<open>
  What the page does to its environment, in order: the readiness query for a run id,
  \<open>setInterval\<close> with the handle it returns, \<open>clearInterval\<close> with its argument,
  \<open>navigator.sendBeacon\<close> to \<open>/delete-run\<close> with the object that is serialised into the
  body, and the removal of the \<open>beforeunload\<close> listener.
\<close>

datatype effect =
    FetchStatus string
  | SetInterval timer
  | ClearInterval "timer option"
  | SendBeacon "(string \<times> string) list"
  | RemoveUnloadListener

text \<open>
  The React state of \<open>HomePage\<close> that the lifecycle code reads and writes, with the log
  of effects and the handle the next \<open>setInterval\<close> returns.
\<close>

record page =
  error :: "string option"
  trainingDone :: bool
  showAnalysis :: bool
  currentRunId :: "string option"
  pollingInterval :: "timer option"
  pollingAttempts :: nat
  effects :: "effect list"
  next_timer :: timer

text \<open>
  \<open>handleTrainingComplete\<close> is built by \<open>useCallback\<close> over \<open>pollingAttempts\<close> and
  \<open>pollingInterval\<close>: an instance of it, and the \<open>checkAndShow\<close> it defines, read the
  values these two constants had in the render that built the instance, whatever the
  state setters have done since.
\<close>

record closure =
  c_pollingAttempts :: nat
  c_pollingInterval :: "timer option"

definition maxPollingAttempts :: nat where
  "maxPollingAttempts = 24"

definition emit :: "effect \<Rightarrow> page \<Rightarrow> page" where
  "emit e w = w\<lparr>effects := effects w @ [e]\<rparr>"

definition checkAnalysisReady :: "string \<Rightarrow> status_response \<Rightarrow> page \<Rightarrow> bool \<times> page" where
  "checkAnalysisReady runId resp w =
     (if runId = [] then (False, w\<lparr>error := Some ''No runId provided for analysis''\<rparr>)
      else
        (let w1 = emit (FetchStatus runId) w
         in case resp of
              NetworkError \<Rightarrow>
                (False, w1\<lparr>error := Some ''Network error while checking analysis readiness''\<rparr>)
            | HttpFailure \<Rightarrow> (False, w1\<lparr>error := Some ''Failed to check analysis readiness''\<rparr>)
            | Ready \<Rightarrow> (True, w1)
            | NotReady \<Rightarrow> (False, w1)))"

definition failure_message :: "string \<Rightarrow> string" where
  "failure_message runId =
     ''Failed to load analysis visualizations after '' @ string_of_nat maxPollingAttempts @
     '' attempts. Ensure /dissect/embeddings, /dissect/feature-importance, and '' @
     ''/dissect/divergence-history endpoints are available for runId='' @ runId @ ''.''"

text \<open>
  One poll step. The result tells the caller whether polling is over. The bound is
  tested on the \<open>pollingAttempts\<close> of the closure; the state's counter is incremented
  through its setter.
\<close>

definition checkAndShow :: "closure \<Rightarrow> string \<Rightarrow> status_response \<Rightarrow> page \<Rightarrow> bool \<times> page" where
  "checkAndShow c runId resp w =
     (let (isReady, w1) = checkAnalysisReady runId resp w;
          w2 = w1\<lparr>pollingAttempts := pollingAttempts w1 + 1\<rparr>
      in if isReady then
           (let w3 = w2\<lparr>showAnalysis := True\<rparr>
            in (True,
                (case c_pollingInterval c of
                   Some h \<Rightarrow> (emit (ClearInterval (Some h)) w3)\<lparr>pollingInterval := None\<rparr>
                 | None \<Rightarrow> w3)))
         else if c_pollingAttempts c + 1 \<ge> maxPollingAttempts then
           (let w3 = w2\<lparr>error := Some (failure_message runId), trainingDone := False\<rparr>
            in (True, (emit (ClearInterval (c_pollingInterval c)) w3)\<lparr>pollingInterval := None\<rparr>))
         else (False, w2))"

text \<open>
  The callback given to \<open>setInterval\<close>, once for each status response that a tick
  receives while the interval is armed: a step that ends polling clears the interval, and
  no later tick runs.
\<close>

fun interval_ticks :: "closure \<Rightarrow> string \<Rightarrow> timer \<Rightarrow> status_response list \<Rightarrow> page \<Rightarrow> page" where
  "interval_ticks c runId interval [] w = w"
| "interval_ticks c runId interval (resp # rest) w =
     (let (stop, w1) = checkAndShow c runId resp w
      in if stop then (emit (ClearInterval (Some interval)) w1)\<lparr>pollingInterval := None\<rparr>
         else interval_ticks c runId interval rest w1)"

text \<open>
  \<open>handleTrainingComplete\<close>: \<open>resp0\<close> answers the immediate check, \<open>ticks\<close> the checks
  of the interval.
\<close>

definition handleTrainingComplete ::
  "closure \<Rightarrow> string \<Rightarrow> status_response \<Rightarrow> status_response list \<Rightarrow> page \<Rightarrow> page" where
  "handleTrainingComplete c runId resp0 ticks w =
     (if runId = [] then w\<lparr>error := Some ''Training completed but no runId received''\<rparr>
      else
        (let w1 = w\<lparr>currentRunId := Some runId, trainingDone := True, pollingAttempts := 0,
                    showAnalysis := False, error := None\<rparr>;
             w2 = (case c_pollingInterval c of
                     Some h \<Rightarrow> emit (ClearInterval (Some h)) w1
                   | None \<Rightarrow> w1);
             (stop, w3) = checkAndShow c runId resp0 w2
         in if stop then w3
            else
              (let interval = next_timer w3;
                   w4 = (emit (SetInterval interval) w3)\<lparr>next_timer := Suc interval\<rparr>;
                   w5 = w4\<lparr>pollingInterval := Some interval\<rparr>
               in interval_ticks c runId interval ticks w5)))"

text \<open>
  \<open>handleRetryPolling\<close> is rebuilt by every render, so a click runs it with the
  \<open>handleTrainingComplete\<close> and the \<open>currentRunId\<close> of the render on screen, which shows
  the state \<open>w\<close>.
\<close>

definition handleRetryPolling :: "status_response \<Rightarrow> status_response list \<Rightarrow> page \<Rightarrow> page" where
  "handleRetryPolling resp0 ticks w =
     handleTrainingComplete
       \<lparr>c_pollingAttempts = pollingAttempts w, c_pollingInterval = pollingInterval w\<rparr>
       (case js_or (currentRunId w) (Some []) of None \<Rightarrow> [] | Some r \<Rightarrow> r)
       resp0 ticks (w\<lparr>error := None, pollingAttempts := 0\<rparr>)"

text \<open>
  The \<open>beforeunload\<close> listener; its \<open>currentRunId\<close> is that of the render whose effect
  registered it, and the effect runs again whenever \<open>currentRunId\<close> changes.
\<close>

definition handleUnload :: "string option \<Rightarrow> page \<Rightarrow> page" where
  "handleUnload runId w =
     (case runId of
        None \<Rightarrow> w
      | Some r \<Rightarrow> (if r = [] then w else emit (SendBeacon [(''run_id'', r), (''runId'', r)]) w))"

definition unload_event :: "page \<Rightarrow> page" where
  "unload_event w = handleUnload (currentRunId w) w"

text \<open>
  Unmounting runs the cleanups of the two effects. The first effect has no dependencies:
  its cleanup reads the \<open>pollingInterval\<close> of the first render, given here as
  \<open>captured\<close>. The second removes the \<open>beforeunload\<close> listener.
\<close>

definition polling_cleanup :: "timer option \<Rightarrow> page \<Rightarrow> page" where
  "polling_cleanup captured w =
     (case captured of None \<Rightarrow> w | Some h \<Rightarrow> emit (ClearInterval (Some h)) w)"

definition unload_listener_cleanup :: "page \<Rightarrow> page" where
  "unload_listener_cleanup w = emit RemoveUnloadListener w"

definition unmount :: "page \<Rightarrow> page" where
  "unmount w = unload_listener_cleanup (polling_cleanup None w)"

text \<open>The state of the first render, and the closure built in it.\<close>

definition page_init :: page where
  "page_init =
     \<lparr>error = None, trainingDone = False, showAnalysis = False, currentRunId = None,
      pollingInterval = None, pollingAttempts = 0, effects = [], next_timer = 1\<rparr>"

definition closure_init :: closure where
  "closure_init = \<lparr>c_pollingAttempts = 0, c_pollingInterval = None\<rparr>"

subsection \<open>Reading the log of effects\<close>

fun status_queries :: "effect list \<Rightarrow> string list" where
  "status_queries [] = []"
| "status_queries (FetchStatus r # es) = r # status_queries es"
| "status_queries (e # es) = status_queries es"

fun timers_armed :: "effect list \<Rightarrow> timer list" where
  "timers_armed [] = []"
| "timers_armed (SetInterval h # es) = h # timers_armed es"
| "timers_armed (e # es) = timers_armed es"

fun beacons :: "effect list \<Rightarrow> (string \<times> string) list list" where
  "beacons [] = []"
| "beacons (SendBeacon p # es) = p # beacons es"
| "beacons (e # es) = beacons es"

text \<open>The effects a run adds to a log that held \<open>n\<close> of them.\<close>

definition added :: "nat \<Rightarrow> page \<Rightarrow> effect list" where
  "added n w = drop n (effects w)"

section \<open>Sample inputs\<close>

text \<open>
  Two lines of a training stream with the records a JSON parser reads from them, a parser
  that knows these two lines and rejects every other text, and chunks of ASCII bytes,
  which have the characters of their text.
\<close>

definition sample_line1 :: string where
  "sample_line1 =
     ''{\"round\":1,\"global_loss\":0.9,\"client_train\":{\"c1\":1},\"client_val\":{\"c1\":1},\"run_id\":\"abc\"}''"

definition sample_line2 :: string where
  "sample_line2 =
     ''{\"round\":2,\"global_loss\":0.5,\"client_train\":{\"c1\":2},\"client_val\":{\"c1\":3},\"run_id\":\"xyz\"}''"

definition sample_round1 :: BackendRoundData where
  "sample_round1 =
     \<lparr>round_n = 1, global_loss = 0.9, client_train = [(''c1'', 1)], client_val = [(''c1'', 1)],
      run_id = Some ''abc''\<rparr>"

definition sample_round2 :: BackendRoundData where
  "sample_round2 =
     \<lparr>round_n = 2, global_loss = 0.5, client_train = [(''c1'', 2)], client_val = [(''c1'', 3)],
      run_id = Some ''xyz''\<rparr>"

definition sample_parse :: "string \<Rightarrow> BackendRoundData option" where
  "sample_parse line =
     (if line = sample_line1 then Some sample_round1
      else if line = sample_line2 then Some sample_round2
      else None)"

definition ascii_decode :: "string \<Rightarrow> string" where
  "ascii_decode bytes = bytes"


text \<open>
  A stream whose one line carries the run id \<open>caf\<close> followed by U+00E9, which is the two
  bytes C3 A9, cut into two chunks between these two bytes. The parser knows the line
  and the line a reader gets when each of the two bytes has been replaced by U+FFFD;
  it returns the records \<open>JSON.parse\<close> reads from them.
\<close>

definition accent_prefix :: string where
  "accent_prefix =
     ''{\"round\":1,\"global_loss\":0.9,\"client_train\":{\"c1\":1},\"client_val\":{\"c1\":1},\"run_id\":\"caf''"

definition accent_line :: string where
  "accent_line = accent_prefix @ [CHR 0xC3, CHR 0xA9] @ ''\"}''"

definition damaged_line :: string where
  "damaged_line = accent_prefix @ replacement @ replacement @ ''\"}''"

definition accent_chunk1 :: string where
  "accent_chunk1 = accent_prefix @ [CHR 0xC3]"

definition accent_chunk2 :: string where
  "accent_chunk2 = [CHR 0xA9] @ ''\"}'' @ ''\<newline>''"

definition accent_round :: "string \<Rightarrow> BackendRoundData" where
  "accent_round r =
     \<lparr>round_n = 1, global_loss = 0.9, client_train = [(''c1'', 1)], client_val = [(''c1'', 1)],
      run_id = Some r\<rparr>"

definition accent_parse :: "string \<Rightarrow> BackendRoundData option" where
  "accent_parse line =
     (if line = accent_line then Some (accent_round (''caf'' @ [CHR 0xC3, CHR 0xA9]))
      else if line = damaged_line then Some (accent_round (''caf'' @ replacement @ replacement))
      else None)"

text \<open>
  A session that starts at time 1000 and whose stream ends at time 2000 with no chunk
  and no run id header.
\<close>

definition empty_session :: "string session" where
  "empty_session =
     \<lparr>started_at = 1000, completed_at = 2000,
      train_response = \<lparr>x_run_id = None, body = Some []\<rparr>\<rparr>"

text \<open>A page on which the run \<open>R1\<close> is resolved and its polling has failed.\<close>

definition failed_R1 :: page where
  "failed_R1 =
     \<lparr>error = Some (failure_message ''R1''), trainingDone = False, showAnalysis = False,
      currentRunId = Some ''R1'', pollingInterval = None, pollingAttempts = 24, effects = [],
      next_timer = 2\<rparr>"

section \<open>The stream decoder reads the closed lines of the whole text\<close>

lemma split_nl_not_Nil: "split_nl t \<noteq> []"
  by (induction t) (auto split: list.splits)

lemma split_nl_append:
  "split_nl (a @ b) = butlast (split_nl a) @ split_nl (last (split_nl a) @ b)"
proof (induction a)
  case Nil
  show ?case by simp
next
  case (Cons c cs)
  show ?case
  proof (cases "c = CHR 0x0A")
    case True
    with Cons show ?thesis by (simp add: split_nl_not_Nil)
  next
    case False
    obtain l ls where sp: "split_nl cs = l # ls"
      using split_nl_not_Nil [of cs] by (cases "split_nl cs") auto
    show ?thesis
    proof (cases ls)
      case Nil
      with False sp Cons show ?thesis by simp
    next
      case (Cons m ms)
      with False sp Cons.IH show ?thesis by simp
    qed
  qed
qed

lemma complete_lines_append:
  "complete_lines (a @ b) = complete_lines a @ complete_lines (residual a @ b)"
  unfolding complete_lines_def residual_def
  by (subst split_nl_append) (simp add: butlast_append split_nl_not_Nil)

lemma residual_append: "residual (a @ b) = residual (residual a @ b)"
  unfolding residual_def
  by (subst split_nl_append) (simp add: split_nl_not_Nil)

lemma split_nl_line: "CHR 0x0A \<notin> set l \<Longrightarrow> split_nl (l @ CHR 0x0A # t) = l # split_nl t"
  using split_nl_not_Nil
  by (induction l) (auto split: list.splits)

lemma process_line_buffer:
  "process_line parse line (s\<lparr>buffer := b\<rparr>) = (process_line parse line s)\<lparr>buffer := b\<rparr>"
  by (simp add: process_line_def Let_def split: option.splits)

lemma fold_process_line_buffer:
  "fold (process_line parse) ls (s\<lparr>buffer := b\<rparr>) = (fold (process_line parse) ls s)\<lparr>buffer := b\<rparr>"
  by (induction ls arbitrary: s) (simp_all add: process_line_buffer)

lemma read_chunk_lines:
  "read_chunk decode parse v s =
     (fold (process_line parse) (complete_lines (buffer s @ decode v)) s)
       \<lparr>buffer := residual (buffer s @ decode v)\<rparr>"
  by (simp add: read_chunk_def Let_def complete_lines_def residual_def split_nl_not_Nil
      fold_process_line_buffer)

lemma split_nl_no_LF: "CHR 0x0A \<notin> set t \<Longrightarrow> split_nl t = [t]"
  by (induction t) auto

lemma residual_no_LF: "CHR 0x0A \<notin> set (residual t)"
  unfolding residual_def
  by (induction t) (auto simp: split_nl_not_Nil split: list.splits)

lemma read_all_lines:
  assumes "CHR 0x0A \<notin> set (buffer s)"
  shows "read_all decode parse chunks s =
     (fold (process_line parse) (complete_lines (buffer s @ concat (map decode chunks))) s)
       \<lparr>buffer := residual (buffer s @ concat (map decode chunks))\<rparr>"
  using assms
proof (induction chunks arbitrary: s)
  case Nil
  then show ?case
    by (simp add: read_all_def complete_lines_def residual_def split_nl_no_LF)
next
  case (Cons v vs)
  let ?s1 = "read_chunk decode parse v s"
  have b1: "buffer ?s1 = residual (buffer s @ decode v)"
    by (simp add: read_chunk_lines)
  have "read_all decode parse (v # vs) s = read_all decode parse vs ?s1"
    by (simp add: read_all_def)
  also have "\<dots> = (fold (process_line parse) (complete_lines (buffer ?s1 @ concat (map decode vs))) ?s1)
       \<lparr>buffer := residual (buffer ?s1 @ concat (map decode vs))\<rparr>"
    by (rule Cons.IH) (simp add: b1 residual_no_LF)
  also have "\<dots> = (fold (process_line parse)
       (complete_lines (buffer s @ decode v) @ complete_lines (residual (buffer s @ decode v) @ concat (map decode vs))) s)
       \<lparr>buffer := residual (residual (buffer s @ decode v) @ concat (map decode vs))\<rparr>"
    by (simp add: read_chunk_lines fold_process_line_buffer)
  finally show ?case
    using complete_lines_append [of "buffer s @ decode v" "concat (map decode vs)"]
      residual_append [of "buffer s @ decode v" "concat (map decode vs)"]
    by simp
qed

lemma read_all_init:
  "read_all decode parse chunks reader_init =
     (fold (process_line parse) (complete_lines (concat (map decode chunks))) reader_init)
       \<lparr>buffer := residual (concat (map decode chunks))\<rparr>"
  using read_all_lines [of reader_init decode parse chunks] by (simp add: reader_init_def)

lemma globalLosses_fold:
  "globalLosses (fold (process_line parse) ls s) =
     globalLosses s @ map formattedData (List.map_filter parse (filter (\<lambda>l. \<not> blank l) ls))"
  by (induction ls arbitrary: s)
    (auto simp: process_line_def Let_def split: option.splits)

lemma console_errors_fold:
  "console_errors (fold (process_line parse) ls s) =
     console_errors s @ filter (\<lambda>l. \<not> blank l \<and> parse l = None) ls"
  by (induction ls arbitrary: s)
    (auto simp: process_line_def Let_def split: option.splits)

lemma streamRunId_fold:
  "streamRunId (fold (process_line parse) ls s) =
     (if truthy (streamRunId s) then streamRunId s
      else (case find (\<lambda>d. truthy (run_id d)) (List.map_filter parse (filter (\<lambda>l. \<not> blank l) ls)) of
              None \<Rightarrow> streamRunId s | Some d \<Rightarrow> run_id d))"
  by (induction ls arbitrary: s)
    (auto simp: process_line_def Let_def split: option.splits)

lemma truthy_simps:
  "truthy None = False" "truthy (Some s) = (s \<noteq> [])"
  by (simp_all add: truthy_def)

lemma reader_init_simps:
  "buffer reader_init = []" "streamRunId reader_init = None"
  "globalLosses reader_init = []" "console_errors reader_init = []"
  by (simp_all add: reader_init_def)

lemma read_all_globalLosses:
  "globalLosses (read_all decode parse chunks reader_init) =
     map formattedData (decoded_records parse (concat (map decode chunks)))"
  by (simp add: read_all_init globalLosses_fold decoded_records_def reader_init_simps)

lemma read_all_streamRunId:
  "streamRunId (read_all decode parse chunks reader_init) =
     first_embedded parse (concat (map decode chunks))"
  by (simp add: read_all_init streamRunId_fold decoded_records_def first_embedded_def
      reader_init_simps truthy_def split: option.splits)

lemma read_all_console_errors:
  "console_errors (read_all decode parse chunks reader_init) =
     filter (\<lambda>l. \<not> blank l \<and> parse l = None) (complete_lines (concat (map decode chunks)))"
  by (simp add: read_all_init console_errors_fold reader_init_simps)

lemma handleStartTraining_body:
  "handleStartTraining decode parse oc \<lparr>x_run_id = hdr, body = Some chunks\<rparr> now =
     \<lparr>fl_globalLosses = map formattedData (decoded_records parse (concat (map decode chunks))),
      fl_error = (if oc then None else Some ''Training completed but no callback to proceed''),
      capturedRunId = Some (finalRunId (js_or (js_or hdr hdr) None)
                        (first_embedded parse (concat (map decode chunks))) now),
      onComplete_calls =
        (if oc then [finalRunId (js_or (js_or hdr hdr) None)
                        (first_embedded parse (concat (map decode chunks))) now] else []),
      fl_console_errors = filter (\<lambda>l. \<not> blank l \<and> parse l = None)
                             (complete_lines (concat (map decode chunks)))\<rparr>"
  by (simp add: handleStartTraining_def Let_def runIdFromHeader_def read_all_globalLosses
      read_all_streamRunId read_all_console_errors)

section \<open>Claims about the stream decoder\<close>

text \<open>
  Cuts between characters. When every chunk decodes to the piece of text it encodes, the
  run over the chunks and the run over the whole text end in the same component state:
  what a chunk leaves unfinished of a line is carried over in \<open>buffer\<close>.
\<close>

lemma cut_between_characters:
  assumes "\<forall>t. decode (encode t) = t"
  shows "handleStartTraining decode parse oc \<lparr>x_run_id = hdr, body = Some (map encode ts)\<rparr> now =
         handleStartTraining decode parse oc \<lparr>x_run_id = hdr, body = Some [encode (concat ts)]\<rparr> now"
proof -
  have "map decode (map encode ts) = ts"
    using assms by (induction ts) simp_all
  then show ?thesis
    using assms by (simp add: handleStartTraining_body)
qed

text \<open>The sample streams.\<close>

lemma sample_lines_not_blank: "\<not> blank sample_line1" "\<not> blank sample_line2"
  by (simp_all add: blank.simps space_width_def js_space_def wide_spaces_def sample_line1_def
      sample_line2_def)

lemma sample_parse_lines:
  "sample_parse sample_line1 = Some sample_round1" "sample_parse sample_line2 = Some sample_round2"
  by (simp_all add: sample_parse_def sample_line1_def sample_line2_def)


lemma accent_whole_decoded:
  "TextDecoder_decode (accent_chunk1 @ accent_chunk2) = accent_line @ ''\<newline>''"
  by (simp add: TextDecoder_decode_def byte_def accent_chunk1_def accent_chunk2_def accent_line_def
      accent_prefix_def)

lemma accent_parts_decoded:
  "TextDecoder_decode accent_chunk1 @ TextDecoder_decode accent_chunk2 = damaged_line @ ''\<newline>''"
  by (simp add: TextDecoder_decode_def byte_def accent_chunk1_def accent_chunk2_def damaged_line_def
      accent_prefix_def replacement_def)

lemma accent_lines:
  "CHR 0x0A \<notin> set accent_line" "CHR 0x0A \<notin> set damaged_line"
  "\<not> blank accent_line" "\<not> blank damaged_line"
  by (simp_all add: accent_line_def damaged_line_def accent_prefix_def replacement_def
      blank.simps space_width_def js_space_def wide_spaces_def)

lemma accent_parsed:
  "accent_parse accent_line = Some (accent_round (''caf'' @ [CHR 0xC3, CHR 0xA9]))"
  "accent_parse damaged_line = Some (accent_round (''caf'' @ replacement @ replacement))"
  by (simp_all add: accent_parse_def accent_line_def damaged_line_def accent_prefix_def replacement_def)

text \<open>
  Claim C2 (chunk-boundary invariance) fails on the code when a chunk boundary falls
  inside a character. The stream is one line whose \<open>run_id\<close> ends in U+00E9, the bytes
  C3 A9. Fed as a single chunk, the line decodes as it was sent: the record read from it
  carries the run id that was sent, and that id is handed to \<open>onComplete\<close>. Cut between
  C3 and A9 and fed as two chunks, each chunk is decoded on its own: the first ends in
  U+FFFD, the second starts with U+FFFD, the residual buffer joins the two damaged
  halves, and the record and the id handed to \<open>onComplete\<close> carry two U+FFFD in place of
  the character.
\<close>

theorem cut_inside_character:
  "decoded_records accent_parse (TextDecoder_decode (accent_chunk1 @ accent_chunk2)) =
     [accent_round (''caf'' @ [CHR 0xC3, CHR 0xA9])] \<and>
   decoded_records accent_parse (TextDecoder_decode accent_chunk1 @ TextDecoder_decode accent_chunk2) =
     [accent_round (''caf'' @ replacement @ replacement)] \<and>
   onComplete_calls (handleStartTraining TextDecoder_decode accent_parse True
      \<lparr>x_run_id = None, body = Some [accent_chunk1 @ accent_chunk2]\<rparr> 7) =
     [''caf'' @ [CHR 0xC3, CHR 0xA9]] \<and>
   onComplete_calls (handleStartTraining TextDecoder_decode accent_parse True
      \<lparr>x_run_id = None, body = Some [accent_chunk1, accent_chunk2]\<rparr> 7) =
     [''caf'' @ replacement @ replacement] \<and>
   ''caf'' @ replacement @ replacement \<noteq> ''caf'' @ [CHR 0xC3, CHR 0xA9]"
proof -
  have whole: "decoded_records accent_parse (accent_line @ ''\<newline>'') =
      [accent_round (''caf'' @ [CHR 0xC3, CHR 0xA9])]"
    using accent_lines(1) accent_lines(3)
    by (simp add: decoded_records_def complete_lines_def split_nl_line accent_parsed)
  have parts: "decoded_records accent_parse (damaged_line @ ''\<newline>'') =
      [accent_round (''caf'' @ replacement @ replacement)]"
    using accent_lines(2) accent_lines(4)
    by (simp add: decoded_records_def complete_lines_def split_nl_line accent_parsed)
  have id1: "first_embedded accent_parse (accent_line @ ''\<newline>'') = Some (''caf'' @ [CHR 0xC3, CHR 0xA9])"
    by (simp add: first_embedded_def whole accent_round_def truthy_simps)
  have id2: "first_embedded accent_parse (damaged_line @ ''\<newline>'') =
      Some (''caf'' @ replacement @ replacement)"
    by (simp add: first_embedded_def parts accent_round_def truthy_simps)
  have r1: "onComplete_calls (handleStartTraining TextDecoder_decode accent_parse True
      \<lparr>x_run_id = None, body = Some [accent_chunk1 @ accent_chunk2]\<rparr> 7) =
     [''caf'' @ [CHR 0xC3, CHR 0xA9]]"
    by (simp add: handleStartTraining_body accent_whole_decoded id1 finalRunId_def js_or_def
        truthy_simps)
  have r2: "onComplete_calls (handleStartTraining TextDecoder_decode accent_parse True
      \<lparr>x_run_id = None, body = Some [accent_chunk1, accent_chunk2]\<rparr> 7) =
     [''caf'' @ replacement @ replacement]"
    by (simp add: handleStartTraining_body accent_parts_decoded id2 finalRunId_def js_or_def
        truthy_simps)
  have ne: "''caf'' @ replacement @ replacement \<noteq> ''caf'' @ [CHR 0xC3, CHR 0xA9]"
    by (simp add: replacement_def)
  from whole parts r1 r2 ne show ?thesis
    by (simp only: accent_whole_decoded accent_parts_decoded simp_thms)
qed

section \<open>Claims about the run identifier\<close>

lemma first_embedded_truthy: "first_embedded parse t = Some e \<Longrightarrow> e \<noteq> []"
  by (auto simp: first_embedded_def truthy_def split: option.splits dest!: find_Some_iff [THEN iffD1])

text \<open>
  Claim C3, as amended. For a response with a body, the identifier that
  \<open>handleStartTraining\<close> stores in \<open>capturedRunId\<close> and hands to \<open>onComplete\<close> is decided
  once, when the stream is complete, as the first of these that is there: the run id
  header, if it is not empty; the \<open>run_id\<close> of the first decoded record that has a
  non-empty one; the text \<open>fallback-\<close> followed by the time read at stream completion.
  In particular a non-empty header wins over every identifier in the records.
\<close>

theorem resolved_runId_precedence:
  "capturedRunId (handleStartTraining decode parse oc \<lparr>x_run_id = hdr, body = Some chunks\<rparr> now) =
     (if truthy hdr then hdr
      else (case first_embedded parse (concat (map decode chunks)) of
              Some e \<Rightarrow> Some e
            | None \<Rightarrow> Some (fallbackRunId now))) \<and>
   onComplete_calls (handleStartTraining decode parse True \<lparr>x_run_id = hdr, body = Some chunks\<rparr> now) =
     (if truthy hdr then [the hdr]
      else (case first_embedded parse (concat (map decode chunks)) of
              Some e \<Rightarrow> [e]
            | None \<Rightarrow> [fallbackRunId now])) \<and>
   capturedRunId (handleStartTraining decode parse oc \<lparr>x_run_id = Some (c # cs), body = Some chunks\<rparr> now) =
     Some (c # cs)"
  using first_embedded_truthy [of parse "concat (map decode chunks)"]
  by (cases hdr; cases "first_embedded parse (concat (map decode chunks))")
     (auto simp: handleStartTraining_body finalRunId_def js_or_def truthy_simps)

text \<open>
  The claim C3 as it was stated builds the fallback from the session start timestamp.
  In a session that starts at time 1000 and whose stream ends at time 2000 without any
  identifier, the code resolves \<open>fallback-2000\<close>, and the stated rule \<open>fallback-1000\<close>.
\<close>

theorem fallback_time_counterexample:
  "capturedRunId (run_session ascii_decode sample_parse empty_session) = Some ''fallback-2000'' \<and>
   spec_resolved_runId ascii_decode sample_parse empty_session = ''fallback-1000''"
  by (simp add: run_session_def empty_session_def handleStartTraining_body spec_resolved_runId_def
      finalRunId_def js_or_def truthy_simps first_embedded_def decoded_records_def complete_lines_def
      fallbackRunId_def string_of_nat.simps digit_char_def)

lemma read_chunk_streamRunId_frozen:
  "truthy (streamRunId s) \<Longrightarrow> streamRunId (read_chunk decode parse v s) = streamRunId s"
  by (simp add: read_chunk_lines streamRunId_fold)

lemma read_all_streamRunId_frozen:
  "truthy (streamRunId s) \<Longrightarrow> streamRunId (read_all decode parse chunks s) = streamRunId s"
  unfolding read_all_def
  by (induction chunks arbitrary: s) (simp_all add: read_chunk_streamRunId_frozen)

lemma read_all_append:
  "read_all decode parse (cs1 @ cs2) s = read_all decode parse cs2 (read_all decode parse cs1 s)"
  by (simp add: read_all_def)

text \<open>
  Claim C4 (run id freeze). Once the reader has taken an identifier from a record,
  \<open>streamRunId\<close> keeps it whatever chunks follow. And once an identifier is there, from
  the header or from a record, the identifier the session resolves is the one it would
  resolve if the stream ended at once: records that follow, with other identifiers, and a
  later time of completion do not change it. The header is read once, before the body.
\<close>

theorem runId_frozen:
  "(truthy (streamRunId (read_all decode parse cs1 reader_init)) \<longrightarrow>
      streamRunId (read_all decode parse (cs1 @ cs2) reader_init) =
      streamRunId (read_all decode parse cs1 reader_init)) \<and>
   (truthy hdr \<or> truthy (streamRunId (read_all decode parse cs1 reader_init)) \<longrightarrow>
      capturedRunId (handleStartTraining decode parse oc \<lparr>x_run_id = hdr, body = Some (cs1 @ cs2)\<rparr> later) =
      capturedRunId (handleStartTraining decode parse oc \<lparr>x_run_id = hdr, body = Some cs1\<rparr> now))"
proof -
  have frozen: "streamRunId (read_all decode parse (cs1 @ cs2) reader_init) =
      streamRunId (read_all decode parse cs1 reader_init)"
    if "truthy (streamRunId (read_all decode parse cs1 reader_init))"
    using that by (simp add: read_all_append read_all_streamRunId_frozen)
  have "capturedRunId (handleStartTraining decode parse oc \<lparr>x_run_id = hdr, body = Some (cs1 @ cs2)\<rparr> later) =
      capturedRunId (handleStartTraining decode parse oc \<lparr>x_run_id = hdr, body = Some cs1\<rparr> now)"
    if "truthy hdr \<or> truthy (streamRunId (read_all decode parse cs1 reader_init))"
  proof (cases "truthy hdr")
    case True
    then show ?thesis
      by (simp add: handleStartTraining_def Let_def runIdFromHeader_def finalRunId_def js_or_def)
  next
    case False
    with that have t: "truthy (streamRunId (read_all decode parse cs1 reader_init))" by simp
    with frozen show ?thesis
      by (simp add: handleStartTraining_def Let_def runIdFromHeader_def finalRunId_def js_or_def)
  qed
  with frozen show ?thesis by blast
qed

text \<open>The sample stream: the second line carries another identifier than the first.\<close>

lemma sample_line_no_LF: "CHR 0x0A \<notin> set sample_line1" "CHR 0x0A \<notin> set sample_line2"
  by (simp_all add: sample_line1_def sample_line2_def)

lemma sample_first_line_runId:
  "streamRunId (read_all ascii_decode sample_parse [sample_line1 @ ''\<newline>''] reader_init) = Some ''abc''"
  using sample_line_no_LF(1)
  by (simp add: read_all_streamRunId ascii_decode_def first_embedded_def decoded_records_def
      complete_lines_def split_nl_line sample_lines_not_blank sample_parse_lines truthy_simps)
     (simp add: sample_round1_def truthy_simps)

theorem runId_frozen_witness:
  "truthy (streamRunId (read_all ascii_decode sample_parse [sample_line1 @ ''\<newline>''] reader_init)) \<and>
   streamRunId (read_all ascii_decode sample_parse
       ([sample_line1 @ ''\<newline>''] @ [sample_line2 @ ''\<newline>'']) reader_init) = Some ''abc'' \<and>
   capturedRunId (handleStartTraining ascii_decode sample_parse True
       \<lparr>x_run_id = None, body = Some ([sample_line1 @ ''\<newline>''] @ [sample_line2 @ ''\<newline>''])\<rparr> 9) =
     Some ''abc'' \<and>
   capturedRunId (handleStartTraining ascii_decode sample_parse True
       \<lparr>x_run_id = None, body = Some [sample_line1 @ ''\<newline>'']\<rparr> 5) = Some ''abc''"
proof -
  have t: "truthy (streamRunId (read_all ascii_decode sample_parse [sample_line1 @ ''\<newline>''] reader_init))"
    by (simp add: sample_first_line_runId truthy_simps)
  have one: "capturedRunId (handleStartTraining ascii_decode sample_parse True
       \<lparr>x_run_id = None, body = Some [sample_line1 @ ''\<newline>'']\<rparr> 5) = Some ''abc''"
    by (simp add: handleStartTraining_def Let_def runIdFromHeader_def finalRunId_def js_or_def
        truthy_simps sample_first_line_runId)
  from runId_frozen [of ascii_decode sample_parse "[sample_line1 @ ''\<newline>'']"
      "[sample_line2 @ ''\<newline>'']" None True 9 5] t one
  show ?thesis
    by (simp only: sample_first_line_runId simp_thms)
qed

section \<open>Claims about malformed lines\<close>



section \<open>The effects of the readiness poller\<close>

lemma status_queries_append: "status_queries (xs @ ys) = status_queries xs @ status_queries ys"
  by (induction xs rule: status_queries.induct) simp_all

lemma timers_armed_append: "timers_armed (xs @ ys) = timers_armed xs @ timers_armed ys"
  by (induction xs rule: timers_armed.induct) simp_all

lemma beacons_append: "beacons (xs @ ys) = beacons xs @ beacons ys"
  by (induction xs rule: beacons.induct) simp_all

lemma status_queries_replicate: "status_queries (replicate n (FetchStatus r)) = replicate n r"
  by (induction n) simp_all

lemma timers_armed_replicate: "timers_armed (replicate n (FetchStatus r)) = []"
  by (induction n) simp_all

lemma checkAndShow_NotReady:
  assumes "runId \<noteq> []" and "c_pollingAttempts c + 1 < maxPollingAttempts"
  shows "checkAndShow c runId NotReady w =
           (False, w\<lparr>pollingAttempts := pollingAttempts w + 1,
                     effects := effects w @ [FetchStatus runId]\<rparr>)"
  using assms by (simp add: checkAndShow_def checkAnalysisReady_def emit_def Let_def)

lemma interval_ticks_NotReady:
  assumes "runId \<noteq> []" and "c_pollingAttempts c + 1 < maxPollingAttempts"
  shows "interval_ticks c runId h (replicate n NotReady) w =
           w\<lparr>pollingAttempts := pollingAttempts w + n,
             effects := effects w @ replicate n (FetchStatus runId)\<rparr>"
proof (induction n arbitrary: w)
  case 0
  show ?case by simp
next
  case (Suc n)
  show ?case
    by (simp add: checkAndShow_NotReady [OF assms] Suc.IH replicate_app_Cons_same)
qed

lemma polling_never_gives_up:
  assumes "runId \<noteq> []" and "c_pollingAttempts c + 1 < maxPollingAttempts"
  shows "handleTrainingComplete c runId NotReady (replicate n NotReady) w =
           w\<lparr>currentRunId := Some runId, trainingDone := True, showAnalysis := False, error := None,
             pollingAttempts := Suc n,
             pollingInterval := Some (next_timer w),
             next_timer := Suc (next_timer w),
             effects := effects w @
               (case c_pollingInterval c of None \<Rightarrow> [] | Some h \<Rightarrow> [ClearInterval (Some h)]) @
               [FetchStatus runId, SetInterval (next_timer w)] @ replicate n (FetchStatus runId)\<rparr>"
  using assms
  by (cases "c_pollingInterval c")
     (simp_all add: handleTrainingComplete_def Let_def checkAndShow_NotReady interval_ticks_NotReady
       emit_def)

section \<open>Claims about the readiness poller\<close>

text \<open>
  Claim C1 (bounded polling) fails on the code. On a fresh page the handler closes over
  \<open>pollingAttempts = 0\<close>, and \<open>checkAndShow\<close> tests the bound on that constant, so the test
  never fires. With every status response \<open>ready: false\<close>, after the immediate check and
  23 ticks (24 queries) the page is not failed, and after one more tick a 25th query has
  been issued, no failure message is set, and the interval is still armed.
\<close>

theorem poller_passes_bound:
  "error (handleTrainingComplete closure_init ''R1'' NotReady (replicate 23 NotReady) page_init) = None \<and>
   trainingDone (handleTrainingComplete closure_init ''R1'' NotReady (replicate 23 NotReady) page_init) \<and>
   length (status_queries (effects
     (handleTrainingComplete closure_init ''R1'' NotReady (replicate 24 NotReady) page_init))) = 25 \<and>
   error (handleTrainingComplete closure_init ''R1'' NotReady (replicate 24 NotReady) page_init) = None \<and>
   trainingDone (handleTrainingComplete closure_init ''R1'' NotReady (replicate 24 NotReady) page_init) \<and>
   pollingInterval (handleTrainingComplete closure_init ''R1'' NotReady (replicate 24 NotReady) page_init) =
     Some 1 \<and>
   timers_armed (effects
     (handleTrainingComplete closure_init ''R1'' NotReady (replicate 24 NotReady) page_init)) = [1]"
proof -
  have b: "c_pollingAttempts closure_init + 1 < maxPollingAttempts"
    by (simp add: closure_init_def maxPollingAttempts_def)
  have r: "''R1'' \<noteq> []" by simp
  show ?thesis
    by (simp add: polling_never_gives_up [OF r b] status_queries_append timers_armed_append
        status_queries_replicate timers_armed_replicate)
       (simp add: closure_init_def page_init_def)
qed

lemma checkAndShow_effects:
  assumes "runId \<noteq> []"
  shows "\<exists>rest. effects (snd (checkAndShow c runId resp w)) = effects w @ FetchStatus runId # rest \<and>
           timers_armed rest = [] \<and> beacons rest = []"
  using assms
  by (cases resp; cases "c_pollingInterval c")
     (simp_all add: checkAndShow_def checkAnalysisReady_def emit_def Let_def)

lemma checkAndShow_beacons:
  "beacons (effects (snd (checkAndShow c runId resp w))) = beacons (effects w)"
  by (cases resp; cases "c_pollingInterval c")
     (simp_all add: checkAndShow_def checkAnalysisReady_def emit_def Let_def beacons_append)

lemma interval_ticks_beacons:
  "beacons (effects (interval_ticks c runId h ticks w)) = beacons (effects w)"
proof (induction ticks arbitrary: w)
  case Nil
  show ?case by simp
next
  case (Cons r rs)
  obtain stop w1 where cs: "checkAndShow c runId r w = (stop, w1)"
    by (cases "checkAndShow c runId r w")
  have b1: "beacons (effects w1) = beacons (effects w)"
    using checkAndShow_beacons [of c runId r w] cs by simp
  show ?case
    by (simp add: cs Cons.IH b1 emit_def beacons_append)
qed

lemma interval_ticks_effects:
  "\<exists>rest. effects (interval_ticks c runId h ticks w) = effects w @ rest"
proof (induction ticks arbitrary: w)
  case Nil
  show ?case by simp
next
  case (Cons r rs)
  obtain stop w1 where cs: "checkAndShow c runId r w = (stop, w1)"
    by (cases "checkAndShow c runId r w")
  have "\<exists>rest. effects w1 = effects w @ rest"
    using cs by (cases r; cases "c_pollingInterval c")
      (auto simp: checkAndShow_def checkAnalysisReady_def emit_def Let_def split: if_splits)
  then obtain r1 where e1: "effects w1 = effects w @ r1" ..
  from Cons.IH [of w1] obtain r2 where "effects (interval_ticks c runId h rs w1) = effects w1 @ r2" ..
  then show ?case
    by (simp add: cs e1 emit_def)
qed

lemma handleTrainingComplete_beacons:
  "beacons (effects (handleTrainingComplete c runId resp0 ticks w)) = beacons (effects w)"
proof (cases "runId = []")
  case True
  then show ?thesis by (simp add: handleTrainingComplete_def)
next
  case False
  let ?w1 = "w\<lparr>currentRunId := Some runId, trainingDone := True, pollingAttempts := 0,
                showAnalysis := False, error := None\<rparr>"
  let ?w2 = "case c_pollingInterval c of Some h \<Rightarrow> emit (ClearInterval (Some h)) ?w1 | None \<Rightarrow> ?w1"
  obtain stop w3 where cs: "checkAndShow c runId resp0 ?w2 = (stop, w3)"
    by (cases "checkAndShow c runId resp0 ?w2")
  have b2: "beacons (effects ?w2) = beacons (effects w)"
    by (cases "c_pollingInterval c") (simp_all add: emit_def beacons_append)
  have b3: "beacons (effects w3) = beacons (effects w)"
    using checkAndShow_beacons [of c runId resp0 ?w2] cs b2 by simp
  show ?thesis
    using False b3
    by (simp add: handleTrainingComplete_def Let_def cs interval_ticks_beacons emit_def beacons_append)
qed

section \<open>Claims about the cleanup\<close>

text \<open>
  Claim C7, as amended. The deletion request is sent by the \<open>beforeunload\<close> listener
  only: unmounting the page and retrying the polling leave the beacons of the log as they
  were, whatever the state, and the unload event adds one beacon when \<open>currentRunId\<close> is
  set and not empty, and none otherwise.
\<close>

theorem deletion_only_on_unload:
  "beacons (effects (unmount w)) = beacons (effects w) \<and>
   beacons (effects (handleRetryPolling resp0 ticks w)) = beacons (effects w) \<and>
   beacons (effects (unload_event w)) =
     beacons (effects w) @
       (case currentRunId w of
          None \<Rightarrow> []
        | Some r \<Rightarrow> (if r = [] then [] else [[(''run_id'', r), (''runId'', r)]]))"
  by (simp add: unmount_def unload_listener_cleanup_def polling_cleanup_def emit_def beacons_append
      handleRetryPolling_def handleTrainingComplete_beacons unload_event_def handleUnload_def
      split: option.splits)

text \<open>
  The claim C7 as it was stated has the deletion request on every exit path. On a page
  whose run \<open>R1\<close> is resolved, unmounting sends no beacon, and neither does the retry.
\<close>

theorem no_deletion_on_unmount_or_retry:
  "currentRunId failed_R1 = Some ''R1'' \<and>
   beacons (effects (unmount failed_R1)) = [] \<and>
   beacons (effects (handleRetryPolling Ready [] failed_R1)) = []"
  by (simp add: unmount_def unload_listener_cleanup_def polling_cleanup_def emit_def beacons_append
      handleRetryPolling_def handleTrainingComplete_beacons)
     (simp add: failed_R1_def)

text \<open>
  Claim C6 (cleanup gating). When the page is unloaded with \<open>currentRunId\<close> null,
  nothing is sent; with \<open>currentRunId\<close> a non-empty \<open>r\<close>, the unload adds exactly one effect
  to the log, the beacon to \<open>/delete-run\<close> whose body holds \<open>r\<close> as \<open>run_id\<close> and as
  \<open>runId\<close>.
\<close>

theorem unload_cleanup_gating:
  "added (length (effects w)) (unload_event (w\<lparr>currentRunId := None\<rparr>)) = [] \<and>
   (r \<noteq> [] \<longrightarrow>
      added (length (effects w)) (unload_event (w\<lparr>currentRunId := Some r\<rparr>)) =
        [SendBeacon [(''run_id'', r), (''runId'', r)]])"
  by (simp add: added_def unload_event_def handleUnload_def emit_def)

text \<open>The unload of a fresh page, and of a page whose run is \<open>R1\<close>.\<close>

theorem unload_cleanup_gating_witness:
  "''R1'' \<noteq> [] \<and>
   added (length (effects page_init)) (unload_event (page_init\<lparr>currentRunId := None\<rparr>)) = [] \<and>
   added (length (effects page_init)) (unload_event (page_init\<lparr>currentRunId := Some ''R1''\<rparr>)) =
     [SendBeacon [(''run_id'', ''R1''), (''runId'', ''R1'')]]"
  using unload_cleanup_gating [of page_init "''R1''"] by simp

section \<open>Claims about failed readiness queries\<close>

text \<open>
  The claim C8 as it was stated keeps a transport error from the user. On a fresh page,
  where no error is shown, a poll step whose query throws sets the page's \<open>error\<close>
  message.
\<close>

theorem transport_error_surfaced:
  "error page_init = None \<and>
   error (snd (checkAndShow closure_init ''R1'' NetworkError page_init)) =
     Some ''Network error while checking analysis readiness''"
  by (simp add: checkAndShow_def checkAnalysisReady_def emit_def Let_def page_init_def
      closure_init_def maxPollingAttempts_def)

text \<open>
  Claim C8, as amended. A poll step whose query fails (the \<open>fetch\<close> throws, or the
  response is not \<open>ok\<close>) and whose bound test does not fire is a missed attempt: it
  issues its query, adds one to \<open>pollingAttempts\<close>, leaves \<open>showAnalysis\<close> and
  \<open>trainingDone\<close> as they are, and reports that polling is not over, so that the interval goes on
  with the next tick. The failure is shown to the user: \<open>error\<close> is set to the message of
  the failure.
\<close>

theorem transport_error_is_a_miss:
  assumes "runId \<noteq> []" and "c_pollingAttempts c + 1 < maxPollingAttempts"
  shows "checkAndShow c runId NetworkError w =
           (False, w\<lparr>pollingAttempts := pollingAttempts w + 1,
                     effects := effects w @ [FetchStatus runId],
                     error := Some ''Network error while checking analysis readiness''\<rparr>) \<and>
         checkAndShow c runId HttpFailure w =
           (False, w\<lparr>pollingAttempts := pollingAttempts w + 1,
                     effects := effects w @ [FetchStatus runId],
                     error := Some ''Failed to check analysis readiness''\<rparr>) \<and>
         interval_ticks c runId h (NetworkError # rest) w =
           interval_ticks c runId h rest
             (w\<lparr>pollingAttempts := pollingAttempts w + 1,
                effects := effects w @ [FetchStatus runId],
                error := Some ''Network error while checking analysis readiness''\<rparr>)"
proof -
  let ?w1 = "w\<lparr>pollingAttempts := pollingAttempts w + 1,
                effects := effects w @ [FetchStatus runId],
                error := Some ''Network error while checking analysis readiness''\<rparr>"
  have net: "checkAndShow c runId NetworkError w = (False, ?w1)"
    using assms by (simp add: checkAndShow_def checkAnalysisReady_def emit_def Let_def)
  have http: "checkAndShow c runId HttpFailure w =
           (False, w\<lparr>pollingAttempts := pollingAttempts w + 1,
                     effects := effects w @ [FetchStatus runId],
                     error := Some ''Failed to check analysis readiness''\<rparr>)"
    using assms by (simp add: checkAndShow_def checkAnalysisReady_def emit_def Let_def)
  have "interval_ticks c runId h (NetworkError # rest) w = interval_ticks c runId h rest ?w1"
    by (simp only: interval_ticks.simps net Let_def prod.case if_False)
  with net http show ?thesis by blast
qed

text \<open>A throwing query in the first step on a fresh page.\<close>

theorem transport_error_is_a_miss_witness:
  "''R1'' \<noteq> [] \<and> c_pollingAttempts closure_init + 1 < maxPollingAttempts \<and>
   checkAndShow closure_init ''R1'' NetworkError page_init =
     (False, page_init\<lparr>pollingAttempts := 1, effects := [FetchStatus ''R1''],
                error := Some ''Network error while checking analysis readiness''\<rparr>)"
proof -
  have r: "''R1'' \<noteq> []" by simp
  have b: "c_pollingAttempts closure_init + 1 < maxPollingAttempts"
    by (simp add: closure_init_def maxPollingAttempts_def)
  from transport_error_is_a_miss [OF r b, of page_init 1 "[]"] r b show ?thesis
    by (simp add: page_init_def)
qed

section \<open>Claims about the entry of the poller\<close>

lemma handleTrainingComplete_Ready:
  assumes "runId \<noteq> []"
  shows "handleTrainingComplete c runId Ready ticks w =
     (case c_pollingInterval c of
        None \<Rightarrow>
          w\<lparr>currentRunId := Some runId, trainingDone := True, pollingAttempts := 1,
            showAnalysis := True, error := None,
            effects := effects w @ [FetchStatus runId]\<rparr>
      | Some h \<Rightarrow>
          w\<lparr>currentRunId := Some runId, trainingDone := True, pollingAttempts := 1,
            showAnalysis := True, error := None, pollingInterval := None,
            effects := effects w @ [ClearInterval (Some h), FetchStatus runId, ClearInterval (Some h)]\<rparr>)"
  using assms
  by (cases "c_pollingInterval c")
     (simp_all add: handleTrainingComplete_def checkAndShow_def checkAnalysisReady_def emit_def Let_def)

lemma handleTrainingComplete_first_query:
  assumes "runId \<noteq> []"
  shows "\<exists>pre rest. effects (handleTrainingComplete c runId resp0 ticks w) =
           effects w @ pre @ FetchStatus runId # rest \<and> timers_armed pre = [] \<and> status_queries pre = []"
proof -
  let ?w1 = "w\<lparr>currentRunId := Some runId, trainingDone := True, pollingAttempts := 0,
                showAnalysis := False, error := None\<rparr>"
  let ?w2 = "case c_pollingInterval c of Some h \<Rightarrow> emit (ClearInterval (Some h)) ?w1 | None \<Rightarrow> ?w1"
  let ?pre = "case c_pollingInterval c of Some h \<Rightarrow> [ClearInterval (Some h)] | None \<Rightarrow> []"
  obtain stop w3 where cs: "checkAndShow c runId resp0 ?w2 = (stop, w3)"
    by (cases "checkAndShow c runId resp0 ?w2")
  have e2: "effects ?w2 = effects w @ ?pre"
    by (cases "c_pollingInterval c") (simp_all add: emit_def)
  have pre: "timers_armed ?pre = []" "status_queries ?pre = []"
    by (cases "c_pollingInterval c"; simp)+
  from checkAndShow_effects [OF assms, of c resp0 ?w2] cs
  obtain r3 where e3: "effects w3 = effects ?w2 @ FetchStatus runId # r3"
    by auto
  show ?thesis
  proof (cases stop)
    case True
    then have "effects (handleTrainingComplete c runId resp0 ticks w) = effects w @ ?pre @ FetchStatus runId # r3"
      using assms e3 e2 by (simp add: handleTrainingComplete_def Let_def cs)
    with pre show ?thesis by blast
  next
    case False
    let ?w5 = "((emit (SetInterval (next_timer w3)) w3)\<lparr>next_timer := Suc (next_timer w3)\<rparr>)
                 \<lparr>pollingInterval := Some (next_timer w3)\<rparr>"
    obtain r5 where "effects (interval_ticks c runId (next_timer w3) ticks ?w5) = effects ?w5 @ r5"
      using interval_ticks_effects [of c runId "next_timer w3" ticks ?w5] by blast
    then have "effects (handleTrainingComplete c runId resp0 ticks w) =
        effects w @ ?pre @ FetchStatus runId # (r3 @ [SetInterval (next_timer w3)] @ r5)"
      using assms False e3 e2 by (simp add: handleTrainingComplete_def Let_def cs emit_def)
    with pre show ?thesis by blast
  qed
qed

text \<open>
  Claim C9 (early success). Called with a non-empty run id, \<open>handleTrainingComplete\<close>
  issues a readiness query before it arms any timer: in the effects it adds, nothing but
  \<open>clearInterval\<close> precedes the first query. If that immediate query reports ready, the
  page shows the analysis, exactly one query has been issued, and no timer is armed at
  all, whatever the ticks would have answered.
\<close>

theorem immediate_check_before_timer:
  assumes "runId \<noteq> []"
  shows "(\<exists>pre rest. added (length (effects w)) (handleTrainingComplete c runId resp0 ticks w) =
             pre @ FetchStatus runId # rest \<and> timers_armed pre = [] \<and> status_queries pre = []) \<and>
         (resp0 = Ready \<longrightarrow>
            showAnalysis (handleTrainingComplete c runId resp0 ticks w) \<and>
            trainingDone (handleTrainingComplete c runId resp0 ticks w) \<and>
            error (handleTrainingComplete c runId resp0 ticks w) = None \<and>
            status_queries (added (length (effects w)) (handleTrainingComplete c runId resp0 ticks w)) = [runId] \<and>
            timers_armed (added (length (effects w)) (handleTrainingComplete c runId resp0 ticks w)) = [])"
proof -
  from handleTrainingComplete_first_query [OF assms, of c resp0 ticks w]
  obtain pre rest where
    "effects (handleTrainingComplete c runId resp0 ticks w) = effects w @ pre @ FetchStatus runId # rest"
    and pre: "timers_armed pre = []" "status_queries pre = []"
    by blast
  then have "added (length (effects w)) (handleTrainingComplete c runId resp0 ticks w) =
      pre @ FetchStatus runId # rest"
    by (simp add: added_def)
  with pre have first: "\<exists>pre rest. added (length (effects w)) (handleTrainingComplete c runId resp0 ticks w) =
             pre @ FetchStatus runId # rest \<and> timers_armed pre = [] \<and> status_queries pre = []"
    by blast
  have "showAnalysis (handleTrainingComplete c runId resp0 ticks w) \<and>
        trainingDone (handleTrainingComplete c runId resp0 ticks w) \<and>
        error (handleTrainingComplete c runId resp0 ticks w) = None \<and>
        status_queries (added (length (effects w)) (handleTrainingComplete c runId resp0 ticks w)) = [runId] \<and>
        timers_armed (added (length (effects w)) (handleTrainingComplete c runId resp0 ticks w)) = []"
    if "resp0 = Ready"
    unfolding that
    by (cases "c_pollingInterval c") (simp_all add: handleTrainingComplete_Ready [OF assms] added_def)
  with first show ?thesis by blast
qed

text \<open>A run that is ready at the immediate check, on a fresh page.\<close>

theorem immediate_check_before_timer_witness:
  "''R1'' \<noteq> [] \<and>
   showAnalysis (handleTrainingComplete closure_init ''R1'' Ready [NotReady, NotReady] page_init) \<and>
   status_queries (added (length (effects page_init))
      (handleTrainingComplete closure_init ''R1'' Ready [NotReady, NotReady] page_init)) = [''R1''] \<and>
   timers_armed (added (length (effects page_init))
      (handleTrainingComplete closure_init ''R1'' Ready [NotReady, NotReady] page_init)) = []"
proof -
  have r: "''R1'' \<noteq> []" by simp
  from immediate_check_before_timer [OF r, of page_init closure_init Ready "[NotReady, NotReady]"] r
  show ?thesis by blast
qed

text \<open>
  Claim C10 (empty run id). Called with the empty string, \<open>handleTrainingComplete\<close> sets
  the error \<open>Training completed but no runId received\<close> and returns: the log of effects is
  unchanged (no query, no timer), and so are \<open>currentRunId\<close>, \<open>trainingDone\<close>,
  \<open>pollingAttempts\<close> and \<open>pollingInterval\<close>.
\<close>

theorem empty_runId_rejected:
  "handleTrainingComplete c [] resp0 ticks w =
     w\<lparr>error := Some ''Training completed but no runId received''\<rparr> \<and>
   error (handleTrainingComplete c [] resp0 ticks w) = Some ''Training completed but no runId received'' \<and>
   effects (handleTrainingComplete c [] resp0 ticks w) = effects w \<and>
   currentRunId (handleTrainingComplete c [] resp0 ticks w) = currentRunId w \<and>
   trainingDone (handleTrainingComplete c [] resp0 ticks w) = trainingDone w \<and>
   pollingAttempts (handleTrainingComplete c [] resp0 ticks w) = pollingAttempts w \<and>
   pollingInterval (handleTrainingComplete c [] resp0 ticks w) = pollingInterval w"
  by (simp add: handleTrainingComplete_def)

end
